theory Spec2Isabelle
  imports Complex_Main
begin

section \<open>Errors and numpy selection primitives\<close>

text \<open>
  Exceptions of the Python sources are values: a function that can raise returns
  \<open>error + 'a\<close>, with \<open>Inl\<close> carrying the exception.
\<close>

datatype error =
    ValueError string
  | ZeroDivisionError
  | DegenerateInputError

text \<open>\<^verbatim>\<open>np.where(c, x, y)\<close> on a scalar: \<open>x\<close> where the condition holds, else \<open>y\<close>.\<close>

definition np_where :: "bool \<Rightarrow> 'a \<Rightarrow> 'a \<Rightarrow> 'a" where
  "np_where c x y = (if c then x else y)"

text \<open>
  \<^verbatim>\<open>np.select(condlist, choicelist, default=0)\<close> on a scalar: the choice of the first
  condition that holds, in list order; the default when none holds.
\<close>

fun np_select :: "(bool \<times> real) list \<Rightarrow> real \<Rightarrow> real" where
  "np_select [] d = d"
| "np_select ((c, x) # rest) d = (if c then x else np_select rest d)"

section \<open>RIMM / ROMM RGB transfer functions (rimm\_romm\_rgb.py)\<close>

text \<open>
  The formulas are embedded over the real numbers: \<^verbatim>\<open>value ** p\<close> is \<open>value powr p\<close>,
  and \<^verbatim>\<open>1 / 1.8\<close> is true division (\<^verbatim>\<open>from __future__ import division\<close>).
\<close>

definition oetf_ROMMRGB :: "real \<Rightarrow> real" where
  "oetf_ROMMRGB v = np_where (v < 0.001953) (v * 16) (v powr (1 / 1.8))"

definition eotf_ROMMRGB :: "real \<Rightarrow> real" where
  "eotf_ROMMRGB v = np_where (v < oetf_ROMMRGB 0.001953) (v / 16) (v powr 1.8)"

text \<open>
  \<^verbatim>\<open>oetf_RIMMRGB(value, I_max=255, E_clip=2.0)\<close>. \<open>V_clip\<close> and \<open>q\<close> are Python scalars:
  a negative \<open>E_clip\<close> has no real fractional power (no real result is produced), and
  \<open>I_max / V_clip\<close> raises \<open>ZeroDivisionError\<close> when \<open>V_clip\<close> is zero.
\<close>

definition oetf_RIMMRGB :: "real \<Rightarrow> real \<Rightarrow> real \<Rightarrow> error + real" where
  "oetf_RIMMRGB v I_max E_clip =
     (if E_clip < 0 then Inl (ValueError ''negative number cannot be raised to a fractional power'')
      else
        let V_clip = 1.099 * E_clip powr 0.45 - 0.099 in
        if V_clip = 0 then Inl ZeroDivisionError
        else
          let q = I_max / V_clip;
              X_p_RIMM = np_select
                [(v < 0.0, 0),
                 (v < 0.018, 4.5 * v),
                 (v \<ge> 0.018, 1.099 * (v powr 0.45) - 0.099),
                 (v > E_clip, I_max)] 0
          in Inr (q * X_p_RIMM))"

section \<open>Colourspace model dispatch (models/common.py)\<close>

type_synonym vec = "real list"

text \<open>
  The conversion functions are imported from \<^verbatim>\<open>colour.models\<close>; the dispatch takes them
  as a record of functions on arrays.
\<close>

record conversions =
  Lab_to_LCHab :: "vec \<Rightarrow> vec"
  Luv_to_LCHuv :: "vec \<Rightarrow> vec"
  Luv_to_uv :: "vec \<Rightarrow> vec \<Rightarrow> vec"
  UCS_to_uv :: "vec \<Rightarrow> vec"
  XYZ_to_IPT :: "vec \<Rightarrow> vec"
  XYZ_to_Lab :: "vec \<Rightarrow> vec \<Rightarrow> vec"
  XYZ_to_Luv :: "vec \<Rightarrow> vec \<Rightarrow> vec"
  XYZ_to_UCS :: "vec \<Rightarrow> vec"
  XYZ_to_UVW :: "vec \<Rightarrow> vec \<Rightarrow> vec"
  XYZ_to_xy :: "vec \<Rightarrow> vec \<Rightarrow> vec"
  XYZ_to_xyY :: "vec \<Rightarrow> vec \<Rightarrow> vec"

definition COLOURSPACE_MODELS :: "string list" where
  "COLOURSPACE_MODELS =
     [''CIE XYZ'', ''CIE xyY'', ''CIE Lab'', ''CIE Luv'', ''CIE UCS'', ''CIE UVW'', ''IPT'']"

text \<open>\<^verbatim>\<open>sep.join(xs)\<close>.\<close>

fun str_join :: "string \<Rightarrow> string list \<Rightarrow> string" where
  "str_join sep [] = []"
| "str_join sep [x] = x"
| "str_join sep (x # y # ys) = x @ sep @ str_join sep (y # ys)"

text \<open>
  The message of the \<^verbatim>\<open>ValueError\<close>:
  \<^verbatim>\<open>'"{0}" not found in colourspace models: "{1}".'.format(model, ', '.join(COLOURSPACE_MODELS))\<close>.
  \<open>CHR 0x22\<close> is the double quote.
\<close>

definition not_found_message :: "string \<Rightarrow> string" where
  "not_found_message model =
     [CHR 0x22] @ model @ [CHR 0x22] @ '' not found in colourspace models: '' @
     [CHR 0x22] @ str_join '', '' COLOURSPACE_MODELS @ [CHR 0x22] @ ''.''"

text \<open>
  \<^verbatim>\<open>XYZ_to_colourspace_model(XYZ, illuminant, model)\<close>: \<open>values\<close> starts as \<open>None\<close>, each
  \<^verbatim>\<open>if model == ...\<close> statement in turn may assign it, and \<open>None\<close> at the end raises.
\<close>

definition XYZ_to_colourspace_model ::
  "conversions \<Rightarrow> vec \<Rightarrow> vec \<Rightarrow> string \<Rightarrow> error + vec" where
  "XYZ_to_colourspace_model M XYZ illuminant model =
     (let values = None;
          values = (if model = ''CIE XYZ'' then Some XYZ else values);
          values = (if model = ''CIE xyY'' then Some (XYZ_to_xyY M XYZ illuminant) else values);
          values = (if model = ''CIE xy'' then Some (XYZ_to_xy M XYZ illuminant) else values);
          values = (if model = ''CIE Lab'' then Some (XYZ_to_Lab M XYZ illuminant) else values);
          values = (if model = ''CIE LCHab''
                    then Some (Lab_to_LCHab M (XYZ_to_Lab M XYZ illuminant)) else values);
          values = (if model = ''CIE Luv'' then Some (XYZ_to_Luv M XYZ illuminant) else values);
          values = (if model = ''CIE Luv uv''
                    then Some (Luv_to_uv M (XYZ_to_Luv M XYZ illuminant) illuminant) else values);
          values = (if model = ''CIE LCHuv''
                    then Some (Luv_to_LCHuv M (XYZ_to_Luv M XYZ illuminant)) else values);
          values = (if model = ''CIE UCS'' then Some (XYZ_to_UCS M XYZ) else values);
          values = (if model = ''CIE UCS uv''
                    then Some (UCS_to_uv M (XYZ_to_UCS M XYZ)) else values);
          values = (if model = ''CIE UVW''
                    then Some (XYZ_to_UVW M (map (\<lambda>x. x * 100) XYZ) illuminant) else values);
          values = (if model = ''IPT'' then Some (XYZ_to_IPT M XYZ) else values)
      in case values of
           None \<Rightarrow> Inl (ValueError (not_found_message model))
         | Some v \<Rightarrow> Inr v)"

text \<open>The identifiers that the \<^verbatim>\<open>if\<close> statements of the dispatch compare with.\<close>

definition dispatched_models :: "string list" where
  "dispatched_models =
     [''CIE XYZ'', ''CIE xyY'', ''CIE xy'', ''CIE Lab'', ''CIE LCHab'', ''CIE Luv'',
      ''CIE Luv uv'', ''CIE LCHuv'', ''CIE UCS'', ''CIE UCS uv'', ''CIE UVW'', ''IPT'']"

section \<open>Spectral distributions and photometry (colour.colorimetry)\<close>

text \<open>
  The modules that define \<^verbatim>\<open>SpectralPowerDistribution\<close>, \<^verbatim>\<open>zeros_spd\<close>, \<^verbatim>\<open>luminous_flux\<close>,
  \<^verbatim>\<open>luminous_efficiency\<close> and \<^verbatim>\<open>luminous_efficacy\<close> are not among the source files; only
  their unit tests (tests\_photometry.py) are. The definitions of this section follow the
  specification, over the real numbers.
\<close>

text \<open>
  Modelled from the spec: SpectralDistribution (section 3), missing from the sources: an
  ordered mapping from wavelength to sample value, as the list of its
  (wavelength, value) samples.
\<close>

type_synonym SpectralDistribution = "(real \<times> real) list"

text \<open>Modelled from the spec: the wavelength keys of a SpectralDistribution (section 3).\<close>

definition wavelengths :: "SpectralDistribution \<Rightarrow> real list" where
  "wavelengths d = map fst d"

text \<open>Modelled from the spec: the sample values of a SpectralDistribution (section 3).\<close>

definition spd_values :: "SpectralDistribution \<Rightarrow> real list" where
  "spd_values d = map snd d"

text \<open>
  Modelled from the spec: the invariants of SpectralDistribution (section 3): the keys are
  strictly increasing (so there is no duplicate wavelength), and there is a domain
  [min key, max key] (so there is at least one sample).
\<close>

definition valid_spd :: "SpectralDistribution \<Rightarrow> bool" where
  "valid_spd d = (d \<noteq> [] \<and> sorted_wrt (<) (wavelengths d))"

text \<open>
  Modelled from the spec: Shape (section 3), missing from the sources: a wavelength domain
  descriptor (start, end, interval).
\<close>

record Shape =
  shape_start :: real
  shape_end :: real
  shape_interval :: real

text \<open>
  Modelled from the spec: the regular grid over a shape (sections 3 and 4.1): start,
  start + interval, ... up to end.
\<close>

definition grid :: "Shape \<Rightarrow> real list" where
  "grid sh =
     (if 0 < shape_interval sh \<and> shape_start sh \<le> shape_end sh
      then map (\<lambda>k. shape_start sh + real k * shape_interval sh)
             [0 ..< Suc (nat \<lfloor>(shape_end sh - shape_start sh) / shape_interval sh\<rfloor>)]
      else [])"


text \<open>
  Modelled from the spec: \<^verbatim>\<open>get(wavelength, default)\<close> (section 4.1), the exact lookup.
\<close>

definition get :: "SpectralDistribution \<Rightarrow> real \<Rightarrow> real \<Rightarrow> real" where
  "get d w dflt = (case map_of d w of None \<Rightarrow> dflt | Some v \<Rightarrow> v)"

text \<open>
  Modelled from the spec: the default extrapolation policy (section 4.1), constant: hold
  the boundary value. An empty table has no boundary and is no SpectralDistribution; the
  function is 0 there.
\<close>

definition constant_extrapolation :: "SpectralDistribution \<Rightarrow> real \<Rightarrow> real" where
  "constant_extrapolation d w =
     (case d of
        [] \<Rightarrow> 0
      | (w0, v0) # _ \<Rightarrow> if w < w0 then v0 else snd (last d))"

text \<open>
  Modelled from the spec: the domain [min key, max key] of a distribution (section 3).
\<close>

definition in_domain :: "SpectralDistribution \<Rightarrow> real \<Rightarrow> bool" where
  "in_domain d w = (case d of [] \<Rightarrow> False | (w0, _) # _ \<Rightarrow> w0 \<le> w \<and> w \<le> fst (last d))"

text \<open>
  Modelled from the spec: linear interpolation (section 4.1), between the two samples that
  bracket the wavelength. The spec names Sprague interpolation for uniformly spaced data
  of six points or more without giving its coefficients: the interpolator is a parameter
  of the operations below, and this one is an instance of it.
\<close>

fun linear_interpolation :: "SpectralDistribution \<Rightarrow> real \<Rightarrow> real" where
  "linear_interpolation ((w0, v0) # (w1, v1) # rest) w =
     (if w \<le> w1 then v0 + (v1 - v0) * (w - w0) / (w1 - w0)
      else linear_interpolation ((w1, v1) # rest) w)"
| "linear_interpolation [(w0, v0)] w = v0"
| "linear_interpolation [] w = 0"

text \<open>
  Modelled from the spec: the interpolated query \<^verbatim>\<open>__getitem__\<close> (section 4.1): the stored
  value at a stored key; an interpolated value at a wavelength inside the domain that is
  not a stored key; the extrapolated value outside the domain.
\<close>

definition getitem ::
  "(SpectralDistribution \<Rightarrow> real \<Rightarrow> real) \<Rightarrow> SpectralDistribution \<Rightarrow> real \<Rightarrow> real" where
  "getitem interpolator d w =
     (case map_of d w of
        Some v \<Rightarrow> v
      | None \<Rightarrow> if in_domain d w then interpolator d w else constant_extrapolation d w)"

text \<open>
  Modelled from the spec: item assignment \<^verbatim>\<open>spd[555] = 1\<close> (section 8, and the unit test):
  the value of a stored wavelength is replaced, a new wavelength is inserted at its place
  in the order.
\<close>

definition setitem :: "SpectralDistribution \<Rightarrow> real \<Rightarrow> real \<Rightarrow> SpectralDistribution" where
  "setitem d w v =
     (if w \<in> set (wavelengths d)
      then map (\<lambda>(k, x). if k = w then (k, v) else (k, x)) d
      else insort_key fst (w, v) d)"

text \<open>
  Modelled from the spec: \<^verbatim>\<open>align(shape)\<close> (section 4.1) resamples onto the regular grid
  over the shape with the interpolated query; the result is a new distribution.
\<close>

definition align ::
  "(SpectralDistribution \<Rightarrow> real \<Rightarrow> real) \<Rightarrow> SpectralDistribution \<Rightarrow> Shape
     \<Rightarrow> SpectralDistribution" where
  "align interpolator d sh = map (\<lambda>w. (w, getitem interpolator d w)) (grid sh)"

text \<open>
  Modelled from the spec: the default visible-spectrum shape (section 4.1), 360 to 780 nm
  in steps of 1 nm.
\<close>

definition DEFAULT_SPECTRAL_SHAPE :: Shape where
  "DEFAULT_SPECTRAL_SHAPE = \<lparr>shape_start = 360, shape_end = 780, shape_interval = 1\<rparr>"

text \<open>
  Modelled from the spec: \<^verbatim>\<open>zeros_spd()\<close> (section 4.1), every value zero over the default
  shape.
\<close>

definition zeros_spd :: SpectralDistribution where
  "zeros_spd = map (\<lambda>w. (w, 0)) (grid DEFAULT_SPECTRAL_SHAPE)"

text \<open>
  Modelled from the spec: the values that \<^verbatim>\<open>normalise(factor=None)\<close> leaves (sections 3 and
  4.1): all values divided by a reference, the maximum value or the factor if given. The
  spec gives no behaviour for a reference of zero or for an empty table; the model
  raises there.
\<close>

definition normalised :: "real option \<Rightarrow> SpectralDistribution \<Rightarrow> error + SpectralDistribution" where
  "normalised factor d =
     (if factor = None \<and> d = [] then Inl DegenerateInputError
      else
        let reference = (case factor of None \<Rightarrow> Max (set (spd_values d)) | Some f \<Rightarrow> f) in
        if reference = 0 then Inl DegenerateInputError
        else Inr (map (\<lambda>(w, v). (w, v / reference)) d))"

text \<open>
  Modelled from the spec: instances are objects (sections 3 and 5). A store is the list of
  the live distributions, a reference is an index into it. A reference outside the store
  does not occur in the program; the operations below return \<open>None\<close> for it.
\<close>

type_synonym store = "SpectralDistribution list"

text \<open>
  Modelled from the spec: \<^verbatim>\<open>clone()\<close> (section 4.1) returns a reference to a new object, an
  independent deep copy.
\<close>

definition clone :: "store \<Rightarrow> nat \<Rightarrow> (store \<times> nat) option" where
  "clone \<sigma> r = (if r < length \<sigma> then Some (\<sigma> @ [\<sigma> ! r], length \<sigma>) else None)"

text \<open>
  Modelled from the spec: \<^verbatim>\<open>normalise(factor=None)\<close> (section 4.1) mutates its receiver in
  place and returns the receiver.
\<close>

definition normalise :: "store \<Rightarrow> nat \<Rightarrow> real option \<Rightarrow> (error + store \<times> nat) option" where
  "normalise \<sigma> r factor =
     (if r < length \<sigma>
      then Some (case normalised factor (\<sigma> ! r) of
                   Inl e \<Rightarrow> Inl e
                 | Inr d \<Rightarrow> Inr (\<sigma>[r := d], r))
      else None)"

text \<open>
  Modelled from the spec: \<^verbatim>\<open>integrate(distribution)\<close> (section 4.3): the sum of the value at
  each grid point times the grid step, the step being that of the grid the distribution
  is sampled on.
\<close>

definition integrate :: "real \<Rightarrow> SpectralDistribution \<Rightarrow> real" where
  "integrate step d = (\<Sum>(w, v) \<leftarrow> d. v * step)"

text \<open>
  Modelled from the spec: the elementwise product of two distributions aligned on one
  grid (section 4.3).
\<close>

definition multiply :: "SpectralDistribution \<Rightarrow> SpectralDistribution \<Rightarrow> SpectralDistribution" where
  "multiply a b = map (\<lambda>((w, x), (w', y)). (w, x * y)) (zip a b)"

text \<open>
  Modelled from the spec: the elementwise product of the operands of
  \<^verbatim>\<open>integrate_product(dist_a, dist_b, ...)\<close> (section 4.3).
\<close>

fun pointwise_product :: "SpectralDistribution list \<Rightarrow> SpectralDistribution" where
  "pointwise_product [] = []"
| "pointwise_product [d] = d"
| "pointwise_product (d # ds) = multiply d (pointwise_product ds)"

text \<open>
  Modelled from the spec: \<^verbatim>\<open>integrate_product(dist_a, dist_b, ...)\<close> (section 4.3), the
  integral of the elementwise product of aligned operands.
\<close>

definition integrate_product :: "real \<Rightarrow> SpectralDistribution list \<Rightarrow> real" where
  "integrate_product step ds = integrate step (pointwise_product ds)"

text \<open>
  Modelled from the spec: \<^verbatim>\<open>luminous_flux(spd, lef, K_m)\<close> (section 4.4): \<open>spd\<close> is aligned
  onto the domain of \<open>lef\<close>, the product is integrated and multiplied by \<open>K_m\<close>. Here and
  below \<open>sh\<close> is the common grid of section 4.2, the native domain of the luminous
  efficiency function \<open>lef\<close>, and both operands are aligned onto it.
\<close>

definition luminous_flux ::
  "(SpectralDistribution \<Rightarrow> real \<Rightarrow> real) \<Rightarrow> Shape \<Rightarrow> SpectralDistribution \<Rightarrow> real
     \<Rightarrow> SpectralDistribution \<Rightarrow> real" where
  "luminous_flux interpolator sh lef K_m spd =
     K_m * integrate_product (shape_interval sh)
             [align interpolator spd sh, align interpolator lef sh]"

text \<open>
  Modelled from the spec: \<^verbatim>\<open>luminous_efficiency(spd, lef)\<close> (section 4.4): the ratio of
  \<^verbatim>\<open>integrate_product(spd, lef)\<close> to \<^verbatim>\<open>integrate(spd)\<close>, and \<^verbatim>\<open>DegenerateInputError\<close>
  (section 7) if \<^verbatim>\<open>integrate(spd)\<close> is zero.
\<close>

definition luminous_efficiency ::
  "(SpectralDistribution \<Rightarrow> real \<Rightarrow> real) \<Rightarrow> Shape \<Rightarrow> SpectralDistribution
     \<Rightarrow> SpectralDistribution \<Rightarrow> error + real" where
  "luminous_efficiency interpolator sh lef spd =
     (let spd = align interpolator spd sh;
          lef = align interpolator lef sh;
          total = integrate (shape_interval sh) spd
      in if total = 0 then Inl DegenerateInputError
         else Inr (integrate_product (shape_interval sh) [spd, lef] / total))"

text \<open>
  Modelled from the spec: \<^verbatim>\<open>luminous_efficacy(spd, lef)\<close> (section 4.4):
  \<^verbatim>\<open>luminous_efficiency(spd, lef) * K_m\<close>. \<open>K_m\<close>, the maximum luminous efficacy, is a module
  constant that is not among the sources: it is a parameter.
\<close>

definition luminous_efficacy ::
  "(SpectralDistribution \<Rightarrow> real \<Rightarrow> real) \<Rightarrow> Shape \<Rightarrow> SpectralDistribution \<Rightarrow> real
     \<Rightarrow> SpectralDistribution \<Rightarrow> error + real" where
  "luminous_efficacy interpolator sh lef K_m spd =
     (case luminous_efficiency interpolator sh lef spd of
        Inl e \<Rightarrow> Inl e
      | Inr efficiency \<Rightarrow> Inr (efficiency * K_m))"

text \<open>
  Modelled from the spec: the value that the specification gives for \<open>K_m\<close> (sections 4.4
  and 8).
\<close>

definition K_m_spec :: real where
  "K_m_spec = 683.002"

subsection \<open>The unit tests (tests\_photometry.py)\<close>

text \<open>
  \<^verbatim>\<open>assertAlmostEqual(first, second, places=7)\<close> of \<^verbatim>\<open>unittest\<close>: the two are equal, or
  their difference rounded to the given number of decimal places is zero.
\<close>

definition assertAlmostEqual :: "real \<Rightarrow> real \<Rightarrow> nat \<Rightarrow> bool" where
  "assertAlmostEqual first second places =
     (first = second \<or> round (\<bar>second - first\<bar> * 10 ^ places) = 0)"

text \<open>
  The expected values of \<^verbatim>\<open>luminous_efficiency\<close> and \<^verbatim>\<open>luminous_efficacy\<close> in the tests on
  illuminant F2, cloned and normalised.
\<close>

definition F2_luminous_efficiency_expected :: real where
  "F2_luminous_efficiency_expected = 0.493176239758"

definition F2_luminous_efficacy_expected :: real where
  "F2_luminous_efficacy_expected = 336.83937175510914"

text \<open>The stimulus and the expected value of the last test of \<^verbatim>\<open>test_luminous_efficacy\<close>.\<close>

definition spike_555 :: SpectralDistribution where
  "spike_555 = setitem zeros_spd 555 1"

definition spike_555_luminous_efficacy_expected :: real where
  "spike_555_luminous_efficacy_expected = 682.99999999999989"

text \<open>A stand-in for the imported conversions, used to run the dispatch on concrete inputs.\<close>

definition example_conversions :: conversions where
  "example_conversions =
     \<lparr>Lab_to_LCHab = (\<lambda>v. v), Luv_to_LCHuv = (\<lambda>v. v), Luv_to_uv = (\<lambda>v i. v),
      UCS_to_uv = (\<lambda>v. v), XYZ_to_IPT = (\<lambda>v. v), XYZ_to_Lab = (\<lambda>v i. v),
      XYZ_to_Luv = (\<lambda>v i. v), XYZ_to_UCS = (\<lambda>v. v), XYZ_to_UVW = (\<lambda>v i. v),
      XYZ_to_xy = (\<lambda>v i. v), XYZ_to_xyY = (\<lambda>v i. v)\<rparr>"

text \<open>
  Small distributions on the grid 400, 410, 420, and three samples of a luminous
  efficiency function around its peak at 555 nm, used to run the operations on concrete
  inputs.
\<close>

definition example_shape :: Shape where
  "example_shape = \<lparr>shape_start = 400, shape_end = 420, shape_interval = 10\<rparr>"

definition example_spd :: SpectralDistribution where
  "example_spd = [(400, 1), (410, 3), (420, 2)]"

definition example_lef :: SpectralDistribution where
  "example_lef = [(400, 0.1), (410, 1), (420, 0.5)]"

definition example_zero_spd :: SpectralDistribution where
  "example_zero_spd = [(400, 0), (410, 0), (420, 0)]"

definition negative_spd :: SpectralDistribution where
  "negative_spd = [(400, - 1), (410, - 2)]"



section \<open>Properties of the ROMM RGB transfer functions\<close>

lemma oetf_ROMMRGB_threshold: "oetf_ROMMRGB 0.001953 = 0.001953 powr (5 / 9)"
  by (simp add: oetf_ROMMRGB_def np_where_def)

lemma linear_segment_top_power: "(0.031248::real) ^ 9 < 0.001953 ^ 5"
proof -
  have "(0.031248::real) = 1953 * 16 / 10 ^ 6" by simp
  moreover have "(0.001953::real) = 1953 / 10 ^ 6" by simp
  moreover have "((1953::real) * 16 / 10 ^ 6) ^ 9 < (1953 / 10 ^ 6) ^ 5"
    unfolding power_divide power_mult_distrib by (simp add: field_simps)
  ultimately show ?thesis by metis
qed

lemma root_of_power:
  fixes a :: real
  assumes "0 < a" and "0 < n"
  shows "(a ^ n) powr (1 / real n) = a"
proof -
  have "(a ^ n) powr (1 / real n) = (a powr real n) powr (1 / real n)"
    using assms(1) by (simp only: powr_realpow)
  also have "\<dots> = a powr (real n * (1 / real n))"
    by (rule powr_powr)
  also have "\<dots> = a"
    using assms by simp
  finally show ?thesis .
qed

lemma less_powr_five_ninths:
  fixes a b :: real
  assumes "0 < a" and "0 < b" and "a ^ 9 < b ^ 5"
  shows "a < b powr (5 / 9)"
proof -
  have "a = (a ^ 9) powr (1 / real 9)"
    using assms(1) by (subst root_of_power) simp_all
  also have "\<dots> < (b ^ 5) powr (1 / real 9)"
    using assms by (intro powr_less_mono2) simp_all
  also have "b ^ 5 = b powr real 5"
    using assms(2) by (simp only: powr_realpow)
  also have "(b powr real 5) powr (1 / real 9) = b powr (real 5 * (1 / real 9))"
    by (rule powr_powr)
  also have "real 5 * (1 / real 9) = 5 / 9"
    by simp
  finally show ?thesis .
qed

text \<open>The top of the linear segment, \<open>16 * 0.001953\<close>, lies below the decoding threshold.\<close>

lemma linear_segment_below_threshold: "(0.031248::real) < 0.001953 powr (5 / 9)"
  by (rule less_powr_five_ninths [OF _ _ linear_segment_top_power]) simp_all

lemma oetf_ROMMRGB_linear_branch:
  assumes "x < 0.001953"
  shows "oetf_ROMMRGB x = x * 16" and "oetf_ROMMRGB x < oetf_ROMMRGB 0.001953"
proof -
  show "oetf_ROMMRGB x = x * 16"
    using assms by (simp add: oetf_ROMMRGB_def np_where_def)
  have "x * 16 < 0.001953 powr (5 / 9)"
    using assms linear_segment_below_threshold by linarith
  then show "oetf_ROMMRGB x < oetf_ROMMRGB 0.001953"
    using assms by (simp add: oetf_ROMMRGB_def np_where_def)
qed

lemma oetf_ROMMRGB_power_branch:
  assumes "\<not> x < 0.001953"
  shows "oetf_ROMMRGB x = x powr (5 / 9)" and "\<not> oetf_ROMMRGB x < oetf_ROMMRGB 0.001953"
proof -
  show eq: "oetf_ROMMRGB x = x powr (5 / 9)"
    using assms by (simp add: oetf_ROMMRGB_def np_where_def)
  have "0.001953 powr (5 / 9) \<le> x powr (5 / 9)"
    using assms by (intro powr_mono2) simp_all
  then show "\<not> oetf_ROMMRGB x < oetf_ROMMRGB 0.001953"
    using assms by (simp add: oetf_ROMMRGB_def np_where_def)
qed

text \<open>
  Claim C9. For every non-negative real \<open>x\<close>, decoding the ROMM RGB encoding of \<open>x\<close> gives
  \<open>x\<close> back, and the decoder's test \<open>value < oetf_ROMMRGB(0.001953)\<close> holds for the encoded
  value exactly when the encoder's test \<open>value < 0.001953\<close> held for \<open>x\<close>: both functions
  take the same piece (linear or power) of the curve.
\<close>

theorem eotf_ROMMRGB_inverts_oetf_ROMMRGB:
  assumes "0 \<le> x"
  shows "eotf_ROMMRGB (oetf_ROMMRGB x) = x
       \<and> ((oetf_ROMMRGB x < oetf_ROMMRGB 0.001953) = (x < 0.001953))"
proof (cases "x < 0.001953")
  case True
  from oetf_ROMMRGB_linear_branch [OF True] show ?thesis
    using True by (simp add: eotf_ROMMRGB_def np_where_def)
next
  case False
  have "(x powr (5 / 9)) powr 1.8 = x"
    using False by (simp add: powr_powr)
  with oetf_ROMMRGB_power_branch [OF False] show ?thesis
    using False by (simp add: eotf_ROMMRGB_def np_where_def)
qed

theorem eotf_ROMMRGB_inverts_oetf_ROMMRGB_witness:
  "(0::real) \<le> 0.18 \<and> eotf_ROMMRGB (oetf_ROMMRGB 0.18) = 0.18
    \<and> ((oetf_ROMMRGB 0.18 < oetf_ROMMRGB 0.001953) = ((0.18::real) < 0.001953))"
  using eotf_ROMMRGB_inverts_oetf_ROMMRGB [of "0.18"] by simp

section \<open>Properties of the RIMM RGB encoding\<close>

lemma V_clip_default_ge_1: "1 \<le> 1.099 * (2::real) powr 0.45 - 0.099"
proof -
  have "(1::real) \<le> 2 powr 0.45"
    by (rule ge_one_powr_ge_zero) simp_all
  then show ?thesis by simp
qed

text \<open>Negative inputs do encode to zero.\<close>

lemma oetf_RIMMRGB_negative:
  assumes "v < 0"
  shows "oetf_RIMMRGB v 255 2 = Inr 0"
proof -
  define V where "V = 1.099 * (2::real) powr 0.45 - 0.099"
  have "V \<noteq> 0"
    using V_clip_default_ge_1 unfolding V_def by simp
  then show ?thesis
    unfolding oetf_RIMMRGB_def Let_def V_def [symmetric]
    using assms by simp
qed

text \<open>At \<open>value = 3\<close> the selection takes its third entry, the power segment.\<close>

lemma RIMM_select_at_3:
  "np_select [((3::real) < 0.0, 0), ((3::real) < 0.018, 4.5 * 3),
              ((3::real) \<ge> 0.018, X), ((3::real) > 2, 255)] 0 = X"
  by simp

text \<open>
  Claim C10 says that every encoded value lies in \<open>[0, I_max]\<close>, inputs above \<open>E_clip\<close>
  encoding to \<open>I_max\<close>. The fourth condition of the selection, \<open>value > E_clip\<close>, comes
  after \<open>value \<ge> 0.018\<close>, which holds already: the power segment is taken instead of the
  clip. At \<open>value = 3\<close> with the default \<open>I_max = 255\<close> and \<open>E_clip = 2\<close> the function
  returns a value above \<open>I_max\<close>.
\<close>

theorem oetf_RIMMRGB_exceeds_I_max:
  "\<exists>y. oetf_RIMMRGB 3 255 2 = Inr y
      \<and> y = 255 / (1.099 * 2 powr 0.45 - 0.099) * (1.099 * 3 powr 0.45 - 0.099)
      \<and> 255 < y"
proof -
  define V where "V = 1.099 * (2::real) powr 0.45 - 0.099"
  define X where "X = 1.099 * (3::real) powr 0.45 - 0.099"
  have V: "1 \<le> V"
    unfolding V_def by (rule V_clip_default_ge_1)
  have "(2::real) powr 0.45 < 3 powr 0.45"
    by (intro powr_less_mono2) simp_all
  then have "V < X"
    unfolding V_def X_def by simp
  then have "1 * V < X" by simp
  then have "1 < X / V"
    using V by (subst pos_less_divide_eq) simp_all
  then have "255 * 1 < 255 * (X / V)"
    by (intro mult_strict_left_mono) simp_all
  then have gt: "255 < 255 / V * X" by simp
  have "V \<noteq> 0" using V by simp
  then have "oetf_RIMMRGB 3 255 2 = Inr (255 / V * X)"
    unfolding oetf_RIMMRGB_def Let_def V_def [symmetric] X_def [symmetric]
    by (simp only: RIMM_select_at_3 V_def [symmetric] X_def [symmetric]) simp
  with gt show ?thesis
    unfolding V_def X_def by blast
qed

section \<open>Properties of the colourspace model dispatch\<close>

lemma not_found_message_names_model:
  "\<exists>rest. not_found_message model = [CHR 0x22] @ model @ [CHR 0x22] @ rest"
  by (simp add: not_found_message_def)

lemma dispatch_unknown:
  assumes "model \<notin> set dispatched_models"
  shows "XYZ_to_colourspace_model M XYZ illuminant model
           = Inl (ValueError (not_found_message model))"
  using assms by (simp add: XYZ_to_colourspace_model_def dispatched_models_def)

lemma dispatch_known:
  assumes "model \<in> set dispatched_models"
  shows "\<exists>v. XYZ_to_colourspace_model M XYZ illuminant model = Inr v"
  using assms unfolding dispatched_models_def
  by (auto simp add: XYZ_to_colourspace_model_def)

text \<open>
  The tuple \<open>COLOURSPACE_MODELS\<close> that the error message lists is a part of what the dispatch
  accepts: \<open>CIE xy\<close>, \<open>CIE LCHab\<close>, \<open>CIE Luv uv\<close>, \<open>CIE LCHuv\<close> and \<open>CIE UCS uv\<close> are
  converted too.
\<close>

lemma COLOURSPACE_MODELS_dispatched: "set COLOURSPACE_MODELS \<subseteq> set dispatched_models"
  by (simp add: COLOURSPACE_MODELS_def dispatched_models_def)

lemma dispatched_beyond_COLOURSPACE_MODELS:
  "set dispatched_models - set COLOURSPACE_MODELS
     = {''CIE xy'', ''CIE LCHab'', ''CIE Luv uv'', ''CIE LCHuv'', ''CIE UCS uv''}"
  by (auto simp add: COLOURSPACE_MODELS_def dispatched_models_def)

text \<open>
  Claim C8. For every model string the dispatch either returns a value or raises: it
  returns a value for each identifier it supports (the identifiers its \<^verbatim>\<open>if\<close> statements
  test, which include every entry of \<open>COLOURSPACE_MODELS\<close>), and for every other string it
  raises \<open>ValueError\<close> with a message that starts with the unknown identifier in double
  quotes. No string gives a \<open>None\<close> result.
\<close>

theorem XYZ_to_colourspace_model_total_dispatch:
  "(model \<in> set dispatched_models \<longrightarrow>
      (\<exists>v. XYZ_to_colourspace_model M XYZ illuminant model = Inr v))
   \<and> (model \<notin> set dispatched_models \<longrightarrow>
      XYZ_to_colourspace_model M XYZ illuminant model
        = Inl (ValueError (not_found_message model))
      \<and> (\<exists>rest. not_found_message model = [CHR 0x22] @ model @ [CHR 0x22] @ rest))
   \<and> set COLOURSPACE_MODELS \<subseteq> set dispatched_models"
  using dispatch_known dispatch_unknown not_found_message_names_model
    COLOURSPACE_MODELS_dispatched
  by blast

theorem XYZ_to_colourspace_model_total_dispatch_witness:
  "''CIE UVW'' \<in> set dispatched_models
   \<and> (\<exists>v. XYZ_to_colourspace_model example_conversions [1, 2, 3] [0.3, 0.3] ''CIE UVW'' = Inr v)
   \<and> ''RGB'' \<notin> set dispatched_models
   \<and> XYZ_to_colourspace_model example_conversions [1, 2, 3] [0.3, 0.3] ''RGB''
       = Inl (ValueError (not_found_message ''RGB''))"
  using XYZ_to_colourspace_model_total_dispatch
          [of "''CIE UVW''" example_conversions "[1, 2, 3]" "[0.3, 0.3]"]
        XYZ_to_colourspace_model_total_dispatch
          [of "''RGB''" example_conversions "[1, 2, 3]" "[0.3, 0.3]"]
  by (simp add: dispatched_models_def)

section \<open>Properties of the regular grid and of tabulated distributions\<close>

lemma grid_example_shape: "grid example_shape = [400, 410, 420]"
  by (simp add: example_shape_def grid_def upt_rec)

lemma interval_example_shape: "shape_interval example_shape = 10"
  by (simp add: example_shape_def)

lemma grid_nonempty_interval:
  assumes "grid sh \<noteq> []"
  shows "0 < shape_interval sh"
  using assms by (simp add: grid_def split: if_splits)

lemma distinct_regular:
  fixes h :: real
  assumes "0 < h" and "distinct ks"
  shows "distinct (map (\<lambda>k. s + real k * h) ks)"
proof -
  have "inj (\<lambda>k. s + real k * h)"
    using assms(1) by (intro injI) simp
  then have "inj_on (\<lambda>k. s + real k * h) (set ks)"
    by (rule inj_on_subset) simp
  with assms(2) show ?thesis
    by (simp only: distinct_map simp_thms)
qed

lemma distinct_grid: "distinct (grid sh)"
  unfolding grid_def by (simp add: distinct_regular del: upt_Suc)

lemma grid_DEFAULT_SPECTRAL_SHAPE:
  "grid DEFAULT_SPECTRAL_SHAPE = map (\<lambda>k. 360 + real k) [0 ..< 421]"
  by (simp add: grid_def DEFAULT_SPECTRAL_SHAPE_def)


lemma default_grid_member:
  assumes "k < 421"
  shows "360 + real k \<in> set (grid DEFAULT_SPECTRAL_SHAPE)"
  using assms by (simp add: grid_DEFAULT_SPECTRAL_SHAPE)

lemma default_grid_bounds:
  assumes "w \<in> set (grid DEFAULT_SPECTRAL_SHAPE)"
  shows "360 \<le> w \<and> w \<le> 780"
  using assms by (auto simp add: grid_DEFAULT_SPECTRAL_SHAPE)

lemma default_grid_555: "555 \<in> set (grid DEFAULT_SPECTRAL_SHAPE)"
  using default_grid_member [of 195] by simp

lemma default_grid_hd_last:
  "grid DEFAULT_SPECTRAL_SHAPE \<noteq> []"
  "hd (grid DEFAULT_SPECTRAL_SHAPE) = 360"
  "last (grid DEFAULT_SPECTRAL_SHAPE) = 780"
  by (simp_all add: grid_DEFAULT_SPECTRAL_SHAPE hd_map last_map)

text \<open>A table whose values are a function of its keys.\<close>

lemma map_of_tabulate:
  "map_of (map (\<lambda>k. (k, f k)) ks) w = (if w \<in> set ks then Some (f w) else None)"
  by (induction ks) auto

lemma getitem_tabulate:
  assumes "ks \<noteq> []"
  shows "getitem i (map (\<lambda>k. (k, f k)) ks) w =
           (if w \<in> set ks then f w
            else if hd ks \<le> w \<and> w \<le> last ks then i (map (\<lambda>k. (k, f k)) ks) w
            else if w < hd ks then f (hd ks) else f (last ks))"
proof -
  obtain k ks' where ks: "ks = k # ks'" using assms by (cases ks) auto
  have "last (map (\<lambda>k. (k, f k)) ks) = (last ks, f (last ks))"
    using assms by (simp add: last_map)
  then show ?thesis
    unfolding getitem_def map_of_tabulate in_domain_def constant_extrapolation_def
    by (simp add: ks)
qed

lemma in_domain_tabulate:
  assumes "ks \<noteq> []"
  shows "in_domain (map (\<lambda>k. (k, f k)) ks) w \<longleftrightarrow> hd ks \<le> w \<and> w \<le> last ks"
proof -
  obtain k ks' where ks: "ks = k # ks'" using assms by (cases ks) auto
  have "last (map (\<lambda>k. (k, f k)) ks) = (last ks, f (last ks))"
    using assms by (simp add: last_map)
  then show ?thesis
    unfolding in_domain_def by (simp add: ks)
qed

lemma wavelengths_zeros_spd: "wavelengths zeros_spd = grid DEFAULT_SPECTRAL_SHAPE"
  by (simp add: zeros_spd_def wavelengths_def comp_def)

lemma spike_555_tabulate:
  "spike_555 = map (\<lambda>w. (w, if w = 555 then 1 else 0)) (grid DEFAULT_SPECTRAL_SHAPE)"
proof -
  have "555 \<in> set (wavelengths zeros_spd)"
    by (simp add: wavelengths_zeros_spd default_grid_555)
  then have "spike_555 = map (\<lambda>(k, x). if k = 555 then (k, 1) else (k, x)) zeros_spd"
    by (simp add: spike_555_def setitem_def)
  also have "\<dots> = map (\<lambda>w. (w, if w = 555 then 1 else 0)) (grid DEFAULT_SPECTRAL_SHAPE)"
    by (simp add: zeros_spd_def comp_def)
  finally show ?thesis .
qed

lemma getitem_spike_555:
  assumes "w \<in> set (grid DEFAULT_SPECTRAL_SHAPE) \<or> \<not> (360 \<le> w \<and> w \<le> 780)"
  shows "getitem i spike_555 w = (if w = 555 then 1 else 0)"
  using assms default_grid_555
  unfolding spike_555_tabulate getitem_tabulate [OF default_grid_hd_last(1)]
    default_grid_hd_last(2,3)
  by auto


lemma wavelengths_spike_555: "wavelengths spike_555 = grid DEFAULT_SPECTRAL_SHAPE"
  by (simp add: spike_555_tabulate wavelengths_def comp_def)

lemma in_domain_spike_555: "in_domain spike_555 w \<longleftrightarrow> 360 \<le> w \<and> w \<le> 780"
  unfolding spike_555_tabulate in_domain_tabulate [OF default_grid_hd_last(1)]
    default_grid_hd_last(2,3) ..

lemma in_domain_zeros_spd: "in_domain zeros_spd w \<longleftrightarrow> 360 \<le> w \<and> w \<le> 780"
  unfolding zeros_spd_def in_domain_tabulate [OF default_grid_hd_last(1)]
    default_grid_hd_last(2,3) ..


text \<open>
  Linear interpolation of samples without negative values gives no negative value inside
  the domain: for a distribution that satisfies the invariants, the hypothesis on the
  interpolator in the bound on the luminous efficiency below holds for this interpolator.
\<close>

lemma convex_nonneg:
  fixes v0 v1 w w0 w1 :: real
  assumes "0 \<le> v0" and "0 \<le> v1" and "w0 \<le> w" and "w \<le> w1" and "w0 < w1"
  shows "0 \<le> v0 + (v1 - v0) * (w - w0) / (w1 - w0)"
proof -
  define t where "t = (w - w0) / (w1 - w0)"
  have t: "0 \<le> t" "t \<le> 1"
    using assms(3,4,5) by (simp_all add: t_def)
  have "(v1 - v0) * (w - w0) / (w1 - w0) = (v1 - v0) * t"
    by (simp add: t_def)
  then have "v0 + (v1 - v0) * (w - w0) / (w1 - w0) = v0 * (1 - t) + v1 * t"
    by (simp add: algebra_simps)
  moreover have "0 \<le> v0 * (1 - t) + v1 * t"
    using assms(1,2) t by (intro add_nonneg_nonneg mult_nonneg_nonneg) simp_all
  ultimately show ?thesis by simp
qed

lemma linear_interpolation_nonneg:
  assumes "sorted_wrt (<) (wavelengths d)" and "\<forall>(w, v) \<in> set d. 0 \<le> v"
    and "d \<noteq> []" and "fst (hd d) \<le> w"
  shows "0 \<le> linear_interpolation d w"
  using assms
proof (induction d w rule: linear_interpolation.induct)
  case (1 w0 v0 w1 v1 rest w)
  show ?case
  proof (cases "w \<le> w1")
    case True
    have "w0 < w1" using "1.prems"(1) by (simp add: wavelengths_def)
    moreover have "0 \<le> v0" and "0 \<le> v1" using "1.prems"(2) by simp_all
    moreover have "w0 \<le> w" using "1.prems"(4) by simp
    ultimately show ?thesis
      using True by (simp add: convex_nonneg)
  next
    case False
    have "sorted_wrt (<) (wavelengths ((w1, v1) # rest))"
      using "1.prems"(1) by (simp add: wavelengths_def)
    moreover have "\<forall>(w, v) \<in> set ((w1, v1) # rest). 0 \<le> v"
      using "1.prems"(2) by simp
    moreover have "fst (hd ((w1, v1) # rest)) \<le> w"
      using False by simp
    ultimately have "0 \<le> linear_interpolation ((w1, v1) # rest) w"
      using "1.IH" [OF False] by simp
    then show ?thesis using False by simp
  qed
next
  case (2 w0 v0 w)
  then show ?case by simp
next
  case (3 w)
  then show ?case by simp
qed

lemma linear_interpolation_nonneg_in_domain:
  assumes "valid_spd d" and "\<forall>(w, v) \<in> set d. 0 \<le> v" and "in_domain d w"
  shows "0 \<le> linear_interpolation d w"
proof -
  have "d \<noteq> []" and "sorted_wrt (<) (wavelengths d)"
    using assms(1) by (simp_all add: valid_spd_def)
  moreover have "fst (hd d) \<le> w"
    using assms(3) \<open>d \<noteq> []\<close> by (cases d) (auto simp add: in_domain_def)
  ultimately show ?thesis
    using assms(2) by (intro linear_interpolation_nonneg)
qed

section \<open>Alignment onto the native shape\<close>


lemma getitem_stored:
  assumes "distinct (wavelengths d)" and "(w, v) \<in> set d"
  shows "getitem interpolator d w = v"
proof -
  have "map_of d w = Some v"
    using assms by (simp add: wavelengths_def)
  then show ?thesis by (simp add: getitem_def)
qed


text \<open>
  On any shape, a grid point that is a stored wavelength keeps its stored value through
  alignment.
\<close>

lemma align_keeps_stored_samples:
  assumes "distinct (wavelengths d)" and "(w, v) \<in> set d" and "w \<in> set (grid sh)"
  shows "get (align interpolator d sh) w dflt = v"
proof -
  have "map_of (align interpolator d sh) w = Some (getitem interpolator d w)"
    unfolding align_def map_of_tabulate using assms(3) by simp
  then show ?thesis
    using getitem_stored [OF assms(1,2)] by (simp add: get_def)
qed

lemma clone_content:
  assumes "r < length \<sigma>"
  shows "clone \<sigma> r = Some (\<sigma> @ [\<sigma> ! r], length \<sigma>)"
  using assms by (simp add: clone_def)



section \<open>Normalisation\<close>

lemma Max_divide_positive:
  fixes vs :: "real list"
  assumes "vs \<noteq> []" and "0 < Max (set vs)"
  shows "Max (set (map (\<lambda>v. v / Max (set vs)) vs)) = 1"
proof -
  let ?M = "Max (set vs)"
  have "mono (\<lambda>v. v / ?M)"
    using assms(2) by (intro monoI divide_right_mono) simp_all
  then have "?M / ?M = Max ((\<lambda>v. v / ?M) ` set vs)"
    using assms(1) by (intro mono_Max_commute) simp_all
  then show ?thesis using assms(2) by simp
qed

lemma normalised_by_maximum:
  assumes "d \<noteq> []" and "0 < Max (set (spd_values d))"
  shows "normalised None d = Inr (map (\<lambda>(w, v). (w, v / Max (set (spd_values d)))) d)"
  using assms by (simp add: normalised_def)

lemma wavelengths_scaled: "wavelengths (map (\<lambda>(w, v). (w, f v)) d) = wavelengths d"
  by (induction d) (auto simp add: wavelengths_def)

lemma spd_values_scaled: "spd_values (map (\<lambda>(w, v). (w, f v)) d) = map f (spd_values d)"
  by (induction d) (auto simp add: spd_values_def)

lemma normalised_maximum_one:
  assumes "d \<noteq> []" and "0 < Max (set (spd_values d))"
  shows "\<exists>d'. normalised None d = Inr d' \<and> Max (set (spd_values d')) = 1
            \<and> wavelengths d' = wavelengths d"
proof -
  have "spd_values d \<noteq> []" using assms(1) by (simp add: spd_values_def)
  from Max_divide_positive [OF this assms(2)] normalised_by_maximum [OF assms]
  show ?thesis by (simp add: wavelengths_scaled spd_values_scaled)
qed

text \<open>
  Claim C7 says that a clone of any distribution with a non-zero value has maximum 1 after
  \<open>normalise\<close>. Dividing by the maximum gives maximum 1 when the maximum is positive; a
  distribution whose values are all negative has a non-zero value and a negative
  maximum, and its normalised clone has a maximum above 1.
\<close>

theorem clone_normalise_negative_counterexample:
  "clone [negative_spd] 0 = Some ([negative_spd, negative_spd], 1)
   \<and> normalise [negative_spd, negative_spd] 1 None
       = Some (Inr ([negative_spd, [(400, 1), (410, 2)]], 1))
   \<and> Max (set (spd_values [(400, 1), (410, 2)])) = 2
   \<and> (400, - 1) \<in> set negative_spd"
  by (simp add: clone_def normalise_def normalised_def negative_spd_def spd_values_def)

text \<open>
  Claim C7, amended. For every distribution \<open>s\<close> of the store whose maximum value is
  positive, \<open>s.clone().normalise()\<close> returns the clone itself (the receiver), mutated in
  place: its maximum value is exactly 1 and its wavelengths are those of \<open>s\<close>; \<open>s\<close> and
  every other object of the store are unchanged.
\<close>

theorem clone_normalise_positive_maximum:
  assumes "r < length \<sigma>" and "\<sigma> ! r \<noteq> []" and "0 < Max (set (spd_values (\<sigma> ! r)))"
  shows "\<exists>\<sigma>1 c \<sigma>2. clone \<sigma> r = Some (\<sigma>1, c)
           \<and> normalise \<sigma>1 c None = Some (Inr (\<sigma>2, c))
           \<and> Max (set (spd_values (\<sigma>2 ! c))) = 1
           \<and> wavelengths (\<sigma>2 ! c) = wavelengths (\<sigma> ! r)
           \<and> c \<noteq> r \<and> \<sigma>2 ! r = \<sigma> ! r
           \<and> length \<sigma>2 = length \<sigma>1
           \<and> (\<forall>k < length \<sigma>1. k \<noteq> c \<longrightarrow> \<sigma>2 ! k = \<sigma>1 ! k)"
proof -
  let ?\<sigma>1 = "\<sigma> @ [\<sigma> ! r]" and ?c = "length \<sigma>"
  obtain d' where d': "normalised None (\<sigma> ! r) = Inr d'"
    "Max (set (spd_values d')) = 1" "wavelengths d' = wavelengths (\<sigma> ! r)"
    using normalised_maximum_one [OF assms(2,3)] by blast
  have "normalise ?\<sigma>1 ?c None = Some (Inr (?\<sigma>1[?c := d'], ?c))"
    using d'(1) by (simp add: normalise_def)
  moreover have "?\<sigma>1[?c := d'] = \<sigma> @ [d']" by simp
  ultimately show ?thesis
    using clone_content [OF assms(1)] d'(2,3) assms(1)
    by (auto simp add: nth_append)
qed

theorem clone_normalise_positive_maximum_witness:
  "0 < length [example_spd] \<and> [example_spd] ! 0 \<noteq> []
   \<and> 0 < Max (set (spd_values ([example_spd] ! 0)))
   \<and> (\<exists>\<sigma>1 c \<sigma>2. clone [example_spd] 0 = Some (\<sigma>1, c)
           \<and> normalise \<sigma>1 c None = Some (Inr (\<sigma>2, c))
           \<and> Max (set (spd_values (\<sigma>2 ! c))) = 1
           \<and> wavelengths (\<sigma>2 ! c) = wavelengths ([example_spd] ! 0)
           \<and> c \<noteq> 0 \<and> \<sigma>2 ! 0 = [example_spd] ! 0
           \<and> length \<sigma>2 = length \<sigma>1)"
proof -
  have 1: "0 < length [example_spd]" by simp
  have 2: "[example_spd] ! 0 \<noteq> []" by (simp add: example_spd_def)
  have 3: "0 < Max (set (spd_values ([example_spd] ! 0)))"
    by (simp add: example_spd_def spd_values_def)
  from clone_normalise_positive_maximum [OF 1 2 3] 1 2 3
  show ?thesis by blast
qed

section \<open>Integrals on the common grid\<close>

lemma integrate_align:
  "integrate h (align i d sh) = (\<Sum>w \<leftarrow> grid sh. getitem i d w * h)"
  by (simp add: integrate_def align_def comp_def)

lemma integrate_product_align:
  "integrate_product h [align i a sh, align i b sh]
     = (\<Sum>w \<leftarrow> grid sh. getitem i a w * getitem i b w * h)"
  by (simp add: integrate_product_def integrate_def multiply_def align_def zip_map_map comp_def
      zip_same_conv_map)

lemma example_zero_integral:
  "integrate (shape_interval example_shape)
     (align linear_interpolation example_zero_spd example_shape) = 0"
  by (simp add: integrate_align grid_example_shape getitem_def example_zero_spd_def)

lemma example_integral:
  "integrate (shape_interval example_shape)
     (align linear_interpolation example_spd example_shape) = 60"
  by (simp add: integrate_align grid_example_shape getitem_def example_spd_def
      interval_example_shape)

lemma example_product_integral:
  "integrate_product (shape_interval example_shape)
     [align linear_interpolation example_spd example_shape,
      align linear_interpolation example_lef example_shape] = 41"
  by (simp add: integrate_product_align grid_example_shape getitem_def example_spd_def
      example_lef_def interval_example_shape)


lemma sum_list_single:
  fixes f :: "'a \<Rightarrow> real"
  assumes "distinct xs" and "a \<in> set xs"
  shows "(\<Sum>x \<leftarrow> xs. (if x = a then 1 else 0) * f x) = f a"
  using assms
proof (induction xs)
  case Nil
  then show ?case by simp
next
  case (Cons x xs)
  show ?case
  proof (cases "x = a")
    case True
    then have "a \<notin> set xs" using Cons.prems by simp
    then have "(\<Sum>x \<leftarrow> xs. (if x = a then 1 else 0) * f x) = (\<Sum>x \<leftarrow> xs. 0)"
      by (intro arg_cong [where f = sum_list] map_cong) auto
    then show ?thesis using True by simp
  next
    case False
    then show ?thesis using Cons by simp
  qed
qed

text \<open>
  For a resampled distribution without negative values the integral is zero exactly when
  every resampled value is zero.
\<close>

lemma zero_integral_iff_all_zero:
  assumes "\<forall>(w, v) \<in> set (align i spd sh). 0 \<le> v"
  shows "integrate (shape_interval sh) (align i spd sh) = 0
           \<longleftrightarrow> (\<forall>(w, v) \<in> set (align i spd sh). v = 0)"
proof (cases "grid sh = []")
  case True
  then show ?thesis by (simp add: integrate_def align_def)
next
  case False
  then have h: "0 < shape_interval sh" by (rule grid_nonempty_interval)
  have nn: "\<forall>x \<in> set (map (\<lambda>w. getitem i spd w * shape_interval sh) (grid sh)). 0 \<le> x"
    using assms h by (auto simp add: align_def)
  have "sum_list (map (\<lambda>w. getitem i spd w * shape_interval sh) (grid sh)) = 0
      \<longleftrightarrow> (\<forall>x \<in> set (map (\<lambda>w. getitem i spd w * shape_interval sh) (grid sh)). x = 0)"
    using nn by (intro sum_list_nonneg_eq_0_iff) blast
  then have "integrate (shape_interval sh) (align i spd sh) = 0
      \<longleftrightarrow> (\<forall>w \<in> set (grid sh). getitem i spd w = 0)"
    using h by (simp add: integrate_align)
  moreover have "(\<forall>(w, v) \<in> set (align i spd sh). v = 0)
      \<longleftrightarrow> (\<forall>w \<in> set (grid sh). getitem i spd w = 0)"
    by (auto simp add: align_def)
  ultimately show ?thesis by simp
qed

section \<open>Luminous efficiency\<close>







section \<open>The unit tests of luminous efficacy\<close>

lemma round_zero_iff: "round (x::real) = 0 \<longleftrightarrow> - 1 / 2 \<le> x \<and> x < 1 / 2"
  unfolding round_def floor_eq_iff by auto

lemma assertAlmostEqual_7_iff:
  "assertAlmostEqual a b 7 \<longleftrightarrow> \<bar>b - a\<bar> < 5 / 10 ^ 8"
proof -
  define x where "x = \<bar>b - a\<bar>"
  have x: "0 \<le> x" by (simp add: x_def)
  then have "round (x * 10 ^ 7) = 0 \<longleftrightarrow> x < 5 / 10 ^ 8"
    unfolding round_zero_iff by auto
  moreover have "a = b \<Longrightarrow> x < 5 / 10 ^ 8" by (simp add: x_def)
  ultimately show ?thesis
    unfolding assertAlmostEqual_def x_def by blast
qed


lemma spike_value_spec: "\<not> assertAlmostEqual K_m_spec spike_555_luminous_efficacy_expected 7"
  unfolding assertAlmostEqual_7_iff spike_555_luminous_efficacy_expected_def K_m_spec_def by simp

lemma assertAlmostEqual_7_bounds:
  assumes "assertAlmostEqual a b 7"
  shows "b - 1 / 20000000 < a" and "a < b + 1 / 20000000"
proof -
  have "\<bar>b - a\<bar> < 5 / 10 ^ 8"
    using assms unfolding assertAlmostEqual_7_iff .
  then have "b - a < 1 / 20000000 \<and> - (b - a) < 1 / 20000000"
    unfolding abs_less_iff by simp
  then show "b - 1 / 20000000 < a" and "a < b + 1 / 20000000"
    by linarith+
qed

lemma spike_555_integrals:
  assumes "555 \<in> set (grid sh)"
    and "\<forall>w \<in> set (grid sh). w \<in> set (grid DEFAULT_SPECTRAL_SHAPE) \<or> \<not> (360 \<le> w \<and> w \<le> 780)"
  shows "integrate (shape_interval sh) (align i spike_555 sh) = shape_interval sh"
    and "integrate_product (shape_interval sh) [align i spike_555 sh, align i lef sh]
           = getitem i lef 555 * shape_interval sh"
proof -
  let ?h = "shape_interval sh"
  have "(\<Sum>w \<leftarrow> grid sh. getitem i spike_555 w * ?h)
          = (\<Sum>w \<leftarrow> grid sh. (if w = 555 then 1 else 0) * ?h)"
    using assms(2) by (intro arg_cong [where f = sum_list] map_cong) (auto simp add: getitem_spike_555)
  also have "\<dots> = ?h"
    using sum_list_single [OF distinct_grid assms(1), of "\<lambda>_. ?h"] by simp
  finally show "integrate ?h (align i spike_555 sh) = ?h"
    by (simp add: integrate_align)
  have "(\<Sum>w \<leftarrow> grid sh. getitem i spike_555 w * getitem i lef w * ?h)
          = (\<Sum>w \<leftarrow> grid sh. (if w = 555 then 1 else 0) * (getitem i lef w * ?h))"
    using assms(2) by (intro arg_cong [where f = sum_list] map_cong) (auto simp add: getitem_spike_555)
  also have "\<dots> = getitem i lef 555 * ?h"
    using sum_list_single [OF distinct_grid assms(1), of "\<lambda>w. getitem i lef w * ?h"] by simp
  finally show "integrate_product ?h [align i spike_555 sh, align i lef sh]
                  = getitem i lef 555 * ?h"
    by (simp add: integrate_product_align)
qed

lemma luminous_efficacy_spike_555:
  assumes "555 \<in> set (grid sh)"
    and "\<forall>w \<in> set (grid sh). w \<in> set (grid DEFAULT_SPECTRAL_SHAPE) \<or> \<not> (360 \<le> w \<and> w \<le> 780)"
  shows "luminous_efficacy i sh lef K spike_555 = Inr (getitem i lef 555 * K)"
proof -
  have "grid sh \<noteq> []" using assms(1) by auto
  then have h: "shape_interval sh \<noteq> 0"
    using grid_nonempty_interval [of sh] by simp
  then show ?thesis
    using spike_555_integrals [OF assms]
    by (simp add: luminous_efficacy_def luminous_efficiency_def Let_def)
qed


text \<open>
  A grid in steps of 1 nm between whole wavelengths that contains 555 nm asks for no
  interpolation of the stimulus: each of its points between 360 and 780 nm is a sample
  wavelength.
\<close>

lemma unit_step_grid:
  fixes a b :: nat
  assumes "a \<le> b"
  shows "grid \<lparr>shape_start = real a, shape_end = real b, shape_interval = 1\<rparr>
           = map (\<lambda>k. real a + real k * 1) [0 ..< Suc (b - a)]"
proof -
  have "(real b - real a) / 1 = real (b - a)"
    using assms by (simp only: of_nat_diff div_by_1)
  then have "nat \<lfloor>(real b - real a) / 1\<rfloor> = b - a"
    by (simp only: floor_of_nat nat_int)
  moreover have "(0::real) < 1 \<and> real a \<le> real b"
    using assms by (simp only: of_nat_le_iff zero_less_one simp_thms)
  ultimately show ?thesis
    unfolding grid_def by (simp only: Shape.select_convs simp_thms if_True)
qed

lemma unit_step_grid_on_default_grid:
  fixes a b :: nat
  assumes "a \<le> 555" and "555 \<le> b"
  defines "sh \<equiv> \<lparr>shape_start = real a, shape_end = real b, shape_interval = 1\<rparr>"
  shows "555 \<in> set (grid sh)"
    and "\<forall>w \<in> set (grid sh). in_domain spike_555 w \<longrightarrow> w \<in> set (wavelengths spike_555)"
proof -
  have "a \<le> b" using assms(1,2) by simp
  then have g: "set (grid sh) = (\<lambda>k. real a + real k) ` {0 ..< Suc (b - a)}"
    unfolding sh_def by (simp only: unit_step_grid set_map set_upt mult_1_right)
  have "555 - a \<in> {0 ..< Suc (b - a)}"
    using assms(1,2) by auto
  then have "real a + real (555 - a) \<in> set (grid sh)"
    unfolding g by (rule imageI)
  moreover have "real a + real (555 - a) = 555"
    using assms(1) by (simp add: of_nat_diff)
  ultimately show "555 \<in> set (grid sh)"
    by simp
  show "\<forall>w \<in> set (grid sh). in_domain spike_555 w \<longrightarrow> w \<in> set (wavelengths spike_555)"
  proof (intro ballI impI)
    fix w assume "w \<in> set (grid sh)" and d: "in_domain spike_555 w"
    then obtain k where "w = real a + real k"
      unfolding g by blast
    then have w: "w = real (a + k)" by simp
    from d have "360 \<le> real (a + k)" and "real (a + k) \<le> 780"
      unfolding in_domain_spike_555 w by blast+
    then have lo: "360 \<le> a + k" and hi: "a + k \<le> 780"
      by linarith+
    from hi have "a + k - 360 < 421" by simp
    moreover from lo have "w = 360 + real (a + k - 360)"
      unfolding w by (simp add: of_nat_diff)
    ultimately show "w \<in> set (wavelengths spike_555)"
      unfolding wavelengths_spike_555 by (simp only: default_grid_member)
  qed
qed



text \<open>
  On such a grid the luminous efficacy of the stimulus is \<open>K_m\<close>, whatever the
  interpolator.
\<close>

lemma luminous_efficacy_spike_555_unit_step:
  fixes a b :: nat
  assumes "a \<le> 555" and "555 \<le> b" and "getitem i lef 555 = 1"
  shows "luminous_efficacy i \<lparr>shape_start = real a, shape_end = real b, shape_interval = 1\<rparr>
           lef K spike_555 = Inr K"
proof -
  let ?sh = "\<lparr>shape_start = real a, shape_end = real b, shape_interval = 1\<rparr>"
  have "\<forall>w \<in> set (grid ?sh).
          w \<in> set (grid DEFAULT_SPECTRAL_SHAPE) \<or> \<not> (360 \<le> w \<and> w \<le> 780)"
    using unit_step_grid_on_default_grid(2) [OF assms(1,2)]
    by (auto simp add: in_domain_spike_555 wavelengths_spike_555)
  from luminous_efficacy_spike_555 [OF unit_step_grid_on_default_grid(1) [OF assms(1,2)] this]
  show ?thesis using assms(3) by simp
qed

text \<open>With the value 683.002 of the specification the same test fails.\<close>

lemma luminous_efficacy_of_spike_555_with_K_m_spec:
  assumes "555 \<in> set (grid sh)"
    and "\<forall>w \<in> set (grid sh). in_domain spike_555 w \<longrightarrow> w \<in> set (wavelengths spike_555)"
    and "getitem i lef 555 = 1"
  shows "luminous_efficacy i sh lef K_m_spec spike_555 = Inr K_m_spec"
    and "\<not> assertAlmostEqual K_m_spec spike_555_luminous_efficacy_expected 7"
proof -
  have "\<forall>w \<in> set (grid sh). w \<in> set (grid DEFAULT_SPECTRAL_SHAPE) \<or> \<not> (360 \<le> w \<and> w \<le> 780)"
    using assms(2) by (auto simp add: in_domain_spike_555 wavelengths_spike_555)
  from luminous_efficacy_spike_555 [OF assms(1) this, of i lef K_m_spec]
  show "luminous_efficacy i sh lef K_m_spec spike_555 = Inr K_m_spec"
    using assms(3) by simp
  show "\<not> assertAlmostEqual K_m_spec spike_555_luminous_efficacy_expected 7"
    by (rule spike_value_spec)
qed

text \<open>
  Claim C1 says that \<open>luminous_efficacy\<close> is \<open>luminous_efficiency\<close> times 683.002. The unit
  tests on illuminant F2 expect an efficiency of 0.493176239758 and an efficacy of
  336.83937175510914, each to 7 decimal places: no two values within these tolerances
  are in the ratio 683.002, even to within 0.0005.
\<close>

theorem K_m_spec_contradicts_F2_tests_counterexample:
  "\<not> (\<exists>e f. assertAlmostEqual e F2_luminous_efficiency_expected 7
          \<and> assertAlmostEqual f F2_luminous_efficacy_expected 7
          \<and> \<bar>f - e * K_m_spec\<bar> \<le> 1 / 2000)"
proof
  assume "\<exists>e f. assertAlmostEqual e F2_luminous_efficiency_expected 7
          \<and> assertAlmostEqual f F2_luminous_efficacy_expected 7
          \<and> \<bar>f - e * K_m_spec\<bar> \<le> 1 / 2000"
  then obtain e f where e: "assertAlmostEqual e F2_luminous_efficiency_expected 7"
    and f: "assertAlmostEqual f F2_luminous_efficacy_expected 7"
    and r: "\<bar>f - e * K_m_spec\<bar> \<le> 1 / 2000"
    by blast
  have 1: "0.493176239758 - 1 / 20000000 < e"
    using assertAlmostEqual_7_bounds(1) [OF e]
    unfolding F2_luminous_efficiency_expected_def .
  have 2: "f < 336.83937175510914 + 1 / 20000000"
    using assertAlmostEqual_7_bounds(2) [OF f]
    unfolding F2_luminous_efficacy_expected_def .
  have 3: "e * 683.002 - f \<le> 1 / 2000"
    using r unfolding K_m_spec_def abs_le_iff by simp
  have a1: "493176189758 / 1000000000000 < e"
    using 1 by simp
  have a2: "f < 33683937180510914 / 100000000000000"
    using 2 by simp
  have a3: "e * (683002 / 1000) - f \<le> 1 / 2000"
    using 3 by simp
  from a1 a2 a3 show False by linarith
qed

lemma F2_tests_pin_K_m:
  assumes "assertAlmostEqual e F2_luminous_efficiency_expected 7"
    and "assertAlmostEqual (e * K) F2_luminous_efficacy_expected 7"
  shows "\<bar>K - 683\<bar> < 1 / 1000"
proof -
  define d where "d = K - 683"
  define p where "p = e * d"
  have eK: "e * K = 683 * e + p"
    by (simp add: d_def p_def algebra_simps)
  have e1: "493176189758 / 1000000000000 < e"
    and e2: "e < 493176289758 / 1000000000000"
    using assertAlmostEqual_7_bounds [OF assms(1)]
    unfolding F2_luminous_efficiency_expected_def by simp_all
  have f1: "33683937170510914 / 100000000000000 < 683 * e + p"
    and f2: "683 * e + p < 33683937180510914 / 100000000000000"
    using assertAlmostEqual_7_bounds [OF assms(2)]
    unfolding F2_luminous_efficacy_expected_def eK by simp_all
  have e_pos: "49 / 100 < e"
    using e1 by linarith
  have p1: "p < 1 / 10000" and p2: "- (1 / 10000) < p"
    using e1 e2 f1 f2 by linarith+
  have "\<bar>d\<bar> < 1 / 1000"
  proof (rule ccontr)
    assume "\<not> \<bar>d\<bar> < 1 / 1000"
    then have "1 / 1000 \<le> \<bar>d\<bar>" by simp
    then have "49 / 100 * (1 / 1000) \<le> e * \<bar>d\<bar>"
      using e_pos by (intro mult_mono) simp_all
    moreover have "\<bar>p\<bar> = e * \<bar>d\<bar>"
      using e_pos by (simp add: p_def abs_mult)
    moreover have "\<bar>p\<bar> < 1 / 10000"
      using p1 p2 by (simp add: abs_less_iff)
    ultimately show False by simp
  qed
  then show ?thesis by (simp add: d_def)
qed

lemma F2_expected_values_fit_683:
  "assertAlmostEqual (F2_luminous_efficiency_expected * 683) F2_luminous_efficacy_expected 7"
  unfolding assertAlmostEqual_7_iff F2_luminous_efficiency_expected_def
    F2_luminous_efficacy_expected_def
  by simp

text \<open>
  Claim C1, amended. \<open>luminous_efficacy\<close> is \<open>luminous_efficiency\<close> multiplied by the
  constant \<open>K_m\<close>, an error of \<open>luminous_efficiency\<close> being passed on; and a constant with
  which the two unit tests on illuminant F2 pass lies within 0.001 of 683 (it is not
  683.002).
\<close>

theorem luminous_efficacy_is_efficiency_times_K_m:
  "(luminous_efficiency i sh lef spd = Inr e \<longrightarrow>
      luminous_efficacy i sh lef K spd = Inr (e * K))
   \<and> (luminous_efficiency i sh lef spd = Inl err \<longrightarrow>
      luminous_efficacy i sh lef K spd = Inl err)
   \<and> (assertAlmostEqual e' F2_luminous_efficiency_expected 7
        \<and> assertAlmostEqual (e' * K) F2_luminous_efficacy_expected 7 \<longrightarrow>
      \<bar>K - 683\<bar> < 1 / 1000)"
  using F2_tests_pin_K_m [of e' K] by (simp add: luminous_efficacy_def)

theorem luminous_efficacy_is_efficiency_times_K_m_witness:
  "luminous_efficiency linear_interpolation example_shape example_lef example_spd = Inr (41 / 60)
   \<and> luminous_efficacy linear_interpolation example_shape example_lef 683 example_spd
       = Inr (41 / 60 * 683)
   \<and> luminous_efficiency linear_interpolation example_shape example_lef example_zero_spd
       = Inl DegenerateInputError
   \<and> luminous_efficacy linear_interpolation example_shape example_lef 683 example_zero_spd
       = Inl DegenerateInputError
   \<and> assertAlmostEqual F2_luminous_efficiency_expected F2_luminous_efficiency_expected 7
   \<and> assertAlmostEqual (F2_luminous_efficiency_expected * 683) F2_luminous_efficacy_expected 7
   \<and> \<bar>683 - 683 :: real\<bar> < 1 / 1000"
proof -
  have 1: "luminous_efficiency linear_interpolation example_shape example_lef example_spd
             = Inr (41 / 60)"
    by (simp add: luminous_efficiency_def Let_def example_integral example_product_integral)
  have 2: "luminous_efficiency linear_interpolation example_shape example_lef example_zero_spd
             = Inl DegenerateInputError"
    by (simp add: luminous_efficiency_def Let_def example_zero_integral)
  have 3: "assertAlmostEqual F2_luminous_efficiency_expected F2_luminous_efficiency_expected 7"
    by (simp add: assertAlmostEqual_def)
  from luminous_efficacy_is_efficiency_times_K_m
         [of linear_interpolation example_shape example_lef example_spd "41 / 60" 683
             DegenerateInputError F2_luminous_efficiency_expected]
       luminous_efficacy_is_efficiency_times_K_m
         [of linear_interpolation example_shape example_lef example_zero_spd "41 / 60" 683
             DegenerateInputError F2_luminous_efficiency_expected]
       1 2 3 F2_expected_values_fit_683
  show ?thesis by simp
qed

end
